theory Spec2Isabelle
  imports Main "HOL-Library.Sublist"
begin

section \<open>Values and property lookup\<close>

text \<open>
  The content script \<^verbatim>\<open>src/main.js\<close> reads its reference tables from JSON modules
  (\<^verbatim>\<open>icon-map.json\<close>, \<^verbatim>\<open>language-map.json\<close>, \<^verbatim>\<open>icon-list.json\<close>). Every table is a
  plain JavaScript object whose own properties map a name or an extension to an icon
  name, and the script reads it with \<^verbatim>\<open>table[key]\<close>. The model keeps the three things
  that expression does:

  \<^item> the key is converted to a string, so the missing extension \<^verbatim>\<open>undefined\<close> reads
    the property called \<^verbatim>\<open>"undefined"\<close>;
  \<^item> an own property wins; otherwise the member of \<^verbatim>\<open>Object.prototype\<close> of that name
    is found (a function, or the prototype object itself for \<^verbatim>\<open>__proto__\<close>);
    otherwise the result is \<^verbatim>\<open>undefined\<close>;
  \<^item> the script tests the result for truthiness: \<^verbatim>\<open>undefined\<close> and the empty string
    are falsy, every other string and every inherited member is truthy.

  File names are strings of 8-bit characters, one per code unit.
\<close>

datatype jsval =
    Undefined
  | Str string
  | Inherited string  \<comment> \<open>the member of \<^verbatim>\<open>Object.prototype\<close> of that name\<close>

fun truthy :: "jsval \<Rightarrow> bool" where
  "truthy Undefined = False"
| "truthy (Str s) = (s \<noteq> [])"
| "truthy (Inherited n) = True"

type_synonym table = "string \<rightharpoonup> string"

definition objectPrototype :: "string list" where
  "objectPrototype =
     [''constructor'', ''hasOwnProperty'', ''isPrototypeOf'', ''propertyIsEnumerable'',
      ''toLocaleString'', ''toString'', ''valueOf'', ''__proto__'',
      ''__defineGetter__'', ''__defineSetter__'', ''__lookupGetter__'', ''__lookupSetter__'']"

definition keyOf :: "string option \<Rightarrow> string" where
  "keyOf k = (case k of None \<Rightarrow> ''undefined'' | Some s \<Rightarrow> s)"

definition getProp :: "table \<Rightarrow> string \<Rightarrow> jsval" where
  "getProp t k =
     (case t k of
        Some v \<Rightarrow> Str v
      | None \<Rightarrow> if k \<in> set objectPrototype then Inherited k else Undefined)"

section \<open>The extension parser\<close>

text \<open>
  \<^verbatim>\<open>fileName.match(/.*?[.](?<ext>xml.dist|xml.dist.sample|yml.dist|\w+)$/)?.[1]\<close>

  The matcher below follows the expression as a backtracking engine runs it: every
  start position from the left (\<open>matchFrom\<close>); the lazy \<^verbatim>\<open>.*?\<close> tried with the
  fewest characters first and never across a line terminator (\<open>lazyDot\<close>); the literal
  dot; the alternatives of the group in their order, each followed by the end of input
  (\<open>extGroup\<close>). The dots inside the alternatives are unescaped and stand for any
  character but a line terminator. Since the end of input follows the group, the text
  captured by the group is all that is left after the dot. \<open>None\<close> is \<^verbatim>\<open>undefined\<close>.
\<close>

definition isLineTerminator :: "char \<Rightarrow> bool" where
  "isLineTerminator c = (c = CHR 0x0A \<or> c = CHR 0x0D)"

definition wordChars :: string where
  "wordChars = ''abcdefghijklmnopqrstuvwxyz'' @ ''ABCDEFGHIJKLMNOPQRSTUVWXYZ'' @ ''0123456789_''"

definition isWordChar :: "char \<Rightarrow> bool" where
  "isWordChar c = (c \<in> set wordChars)"

datatype atom = Lit char | AnyChar

fun matchAtoms :: "atom list \<Rightarrow> string \<Rightarrow> string option" where
  "matchAtoms [] s = Some s"
| "matchAtoms (a # as) [] = None"
| "matchAtoms (Lit c # as) (x # xs) = (if x = c then matchAtoms as xs else None)"
| "matchAtoms (AnyChar # as) (x # xs) = (if isLineTerminator x then None else matchAtoms as xs)"

definition xml_dist :: "atom list" where
  "xml_dist = map Lit ''xml'' @ [AnyChar] @ map Lit ''dist''"

definition xml_dist_sample :: "atom list" where
  "xml_dist_sample = map Lit ''xml'' @ [AnyChar] @ map Lit ''dist'' @ [AnyChar] @ map Lit ''sample''"

definition yml_dist :: "atom list" where
  "yml_dist = map Lit ''yml'' @ [AnyChar] @ map Lit ''dist''"

definition extGroup :: "string \<Rightarrow> string option" where
  "extGroup r =
     (if matchAtoms xml_dist r = Some [] then Some r
      else if matchAtoms xml_dist_sample r = Some [] then Some r
      else if matchAtoms yml_dist r = Some [] then Some r
      else if r \<noteq> [] \<and> list_all isWordChar r then Some r
      else None)"

fun lazyDot :: "string \<Rightarrow> string option" where
  "lazyDot [] = None"
| "lazyDot (c # cs) =
     (case (if c = CHR ''.'' then extGroup cs else None) of
        Some e \<Rightarrow> Some e
      | None \<Rightarrow> if isLineTerminator c then None else lazyDot cs)"

fun matchFrom :: "string \<Rightarrow> string option" where
  "matchFrom [] = None"
| "matchFrom (c # cs) =
     (case lazyDot (c # cs) of Some e \<Rightarrow> Some e | None \<Rightarrow> matchFrom cs)"

definition fileExtensionOf :: "string \<Rightarrow> string option" where
  "fileExtensionOf fileName = matchFrom fileName"

section \<open>The reference tables\<close>

text \<open>
  \<^verbatim>\<open>icon-map.json\<close> holds the primary tables, their light-theme variants and the
  options; line 15 of \<^verbatim>\<open>main.js\<close> sets \<^verbatim>\<open>options.activeIconPack\<close>. The JSON file
  is not part of the sources, so the tables are parameters of every function below.
  \<open>None\<close> for the active pack is an absent option.
\<close>

record iconMap =
  fileNames :: table
  folderNames :: table
  fileExtensions :: table
  languageIds :: table
  light_fileNames :: table
  light_folderNames :: table
  light_fileExtensions :: table
  activeIconPack :: "string option"

text \<open>\<^verbatim>\<open>language-map.json\<close>: the fallback language tables.\<close>

record languageMap =
  lang_fileNames :: table
  lang_fileExtensions :: table

text \<open>
  Modelled from the spec: \<^verbatim>\<open>icon-list.json\<close>, the icon-existence set, is missing from
  the sources. It is the set of asset names \<open>k\<close> for which \<^verbatim>\<open>iconsList[k]\<close> is
  truthy. Every key the script reads there ends in \<^verbatim>\<open>.svg\<close>, so no member of
  \<^verbatim>\<open>Object.prototype\<close> is ever found through it.
\<close>

type_synonym iconsList = "string set"

definition packActive :: "iconMap \<Rightarrow> bool" where
  "packActive im = (case activeIconPack im of None \<Rightarrow> False | Some p \<Rightarrow> p \<noteq> [])"

section \<open>The resolution engine\<close>

text \<open>\<^verbatim>\<open>lookForMatch\<close>, lines 207 to 238.\<close>

definition lookForMatch ::
  "iconMap \<Rightarrow> languageMap \<Rightarrow> string \<Rightarrow> string \<Rightarrow> string option \<Rightarrow> bool \<Rightarrow> bool \<Rightarrow> bool \<Rightarrow> jsval"
  where
  "lookForMatch im lm fileName lowerFileName fileExtension isDir isSubmodule isSymlink =
     (if isSubmodule then Str ''folder-git''
      else if isSymlink then Str ''folder-symlink''
      else if truthy (getProp (fileNames im) fileName) \<and> \<not> isDir \<and> \<not> isSubmodule
        then getProp (fileNames im) fileName
      else if truthy (getProp (folderNames im) fileName) \<and> isDir \<and> \<not> isSubmodule
        then getProp (folderNames im) fileName
      else if truthy (getProp (fileNames im) lowerFileName) \<and> \<not> isDir \<and> \<not> isSubmodule
        then getProp (fileNames im) lowerFileName
      else if truthy (getProp (folderNames im) lowerFileName) \<and> isDir \<and> \<not> isSubmodule
        then getProp (folderNames im) lowerFileName
      else if truthy (getProp (fileExtensions im) (keyOf fileExtension)) \<and> \<not> isDir \<and> \<not> isSubmodule
        then getProp (fileExtensions im) (keyOf fileExtension)
      else if truthy (getProp (languageIds im) (keyOf fileExtension)) \<and> \<not> isDir \<and> \<not> isSubmodule
        then getProp (languageIds im) (keyOf fileExtension)
      else if truthy (getProp (lang_fileNames lm) fileName) \<and> \<not> isDir \<and> \<not> isSubmodule
        then getProp (lang_fileNames lm) fileName
      else if truthy (getProp (lang_fileNames lm) lowerFileName) \<and> \<not> isDir \<and> \<not> isSubmodule
        then getProp (lang_fileNames lm) lowerFileName
      else if truthy (getProp (lang_fileExtensions lm) (keyOf fileExtension)) \<and> \<not> isDir
        then getProp (lang_fileExtensions lm) (keyOf fileExtension)
      else if isDir then Str ''folder''
      else Str ''file'')"

text \<open>\<^verbatim>\<open>lookForLightMatch\<close>, lines 250 to 260.\<close>

definition lookForLightMatch ::
  "iconMap \<Rightarrow> jsval \<Rightarrow> string \<Rightarrow> string option \<Rightarrow> bool \<Rightarrow> jsval"
  where
  "lookForLightMatch im iconName fileName fileExtension isDir =
     (if truthy (getProp (light_fileNames im) fileName) \<and> \<not> isDir
        then getProp (light_fileNames im) fileName
      else if truthy (getProp (light_folderNames im) fileName) \<and> isDir
        then getProp (light_folderNames im) fileName
      else if truthy (getProp (light_fileExtensions im) (keyOf fileExtension)) \<and> \<not> isDir
        then getProp (light_fileExtensions im) (keyOf fileExtension)
      else iconName)"

text \<open>
  \<^verbatim>\<open>lookForIconPackMatch\<close>, lines 269 to 327. The result is a string or \<^verbatim>\<open>null\<close>
  (\<open>None\<close>). A test \<^verbatim>\<open>/\.kind\.(t|j)s$/.test(lowerFileName)\<close> holds when the name ends in
  \<^verbatim>\<open>.kind.ts\<close> or in \<^verbatim>\<open>.kind.js\<close>.
\<close>

definition endsWith :: "string \<Rightarrow> string \<Rightarrow> bool" where
  "endsWith s suf = suffix suf s"

definition nestTest :: "string \<Rightarrow> string \<Rightarrow> bool" where
  "nestTest kind lowerFileName =
     (endsWith lowerFileName (''.'' @ kind @ ''.ts'') \<or> endsWith lowerFileName (''.'' @ kind @ ''.js''))"

definition nestMatch :: "string \<Rightarrow> string option" where
  "nestMatch lowerFileName =
     (if nestTest ''controller'' lowerFileName then Some ''nest-controller''
      else if nestTest ''middleware'' lowerFileName then Some ''nest-middleware''
      else if nestTest ''module'' lowerFileName then Some ''nest-module''
      else if nestTest ''service'' lowerFileName then Some ''nest-service''
      else if nestTest ''decorator'' lowerFileName then Some ''nest-decorator''
      else if nestTest ''pipe'' lowerFileName then Some ''nest-pipe''
      else if nestTest ''filter'' lowerFileName then Some ''nest-filter''
      else if nestTest ''gateway'' lowerFileName then Some ''nest-gateway''
      else if nestTest ''guard'' lowerFileName then Some ''nest-guard''
      else if nestTest ''resolver'' lowerFileName then Some ''nest-resolver''
      else None)"

definition lookForIconPackMatch :: "iconMap \<Rightarrow> iconsList \<Rightarrow> string \<Rightarrow> string option" where
  "lookForIconPackMatch im il lowerFileName =
     (case activeIconPack im of
        None \<Rightarrow> None
      | Some pack \<Rightarrow>
         if pack = [] then None
         else if pack = ''angular'' \<or> pack = ''angular_ngrx'' then
           (if ''folder-react-'' @ lowerFileName @ ''.svg'' \<in> il
              then Some (''folder-ngrx-'' @ lowerFileName)
            else None)
         else if pack = ''react'' \<or> pack = ''react_redux'' then
           (if ''folder-react-'' @ lowerFileName @ ''.svg'' \<in> il
              then Some (''folder-react-'' @ lowerFileName)
            else if ''folder-redux-'' @ lowerFileName @ ''.svg'' \<in> il
              then Some (''folder-redux-'' @ lowerFileName)
            else None)
         else if pack = ''vue'' \<or> pack = ''vue_vuex'' then
           (if ''folder-vuex-'' @ lowerFileName @ ''.svg'' \<in> il
              then Some (''folder-vuex-'' @ lowerFileName)
            else if ''folder-vue-'' @ lowerFileName @ ''.svg'' \<in> il
              then Some (''folder-vue-'' @ lowerFileName)
            else if lowerFileName = ''nuxt'' then Some ''folder-nuxt''
            else None)
         else if pack = ''nest'' then nestMatch lowerFileName
         else None)"

text \<open>
  \<^verbatim>\<open>replaceIcon\<close>, lines 168 to 184: the icon name computed for a row from the file
  name, its lowercase form and its extension (lines 149 to 166) and the flags read
  from the provider. \<^verbatim>\<open>a ?? b\<close> is \<open>b\<close> when \<open>a\<close> is \<^verbatim>\<open>null\<close>.
\<close>

definition replaceIcon_iconName ::
  "iconMap \<Rightarrow> languageMap \<Rightarrow> iconsList \<Rightarrow> string \<Rightarrow> string \<Rightarrow> string option
     \<Rightarrow> bool \<Rightarrow> bool \<Rightarrow> bool \<Rightarrow> bool \<Rightarrow> jsval"
  where
  "replaceIcon_iconName im lm il fileName lowerFileName fileExtension
       isDir isSubmodule isSymlink isLightTheme =
     (let iconName = lookForMatch im lm fileName lowerFileName fileExtension isDir isSubmodule isSymlink;
          iconName = (if isLightTheme
                        then lookForLightMatch im iconName fileName fileExtension isDir
                      else iconName);
          iconName = (if packActive im
                        then (case lookForIconPackMatch im il lowerFileName of
                                None \<Rightarrow> iconName
                              | Some p \<Rightarrow> Str p)
                      else iconName)
      in iconName)"

text \<open>
  The three tests of \<^verbatim>\<open>lookForLightMatch\<close>, lines 252 to 257: whether the light
  stage finds something for the row.
\<close>

definition lightHit :: "iconMap \<Rightarrow> string \<Rightarrow> string option \<Rightarrow> bool \<Rightarrow> bool" where
  "lightHit im fileName fileExtension isDir =
     ((truthy (getProp (light_fileNames im) fileName) \<and> \<not> isDir)
      \<or> (truthy (getProp (light_folderNames im) fileName) \<and> isDir)
      \<or> (truthy (getProp (light_fileExtensions im) (keyOf fileExtension)) \<and> \<not> isDir))"

text \<open>
  Tables without any entry, for concrete runs; \<open>pack\<close> is the configured
  \<^verbatim>\<open>activeIconPack\<close> (\<^verbatim>\<open>'react_redux'\<close> at line 17).
\<close>

definition emptyIconMap :: "string option \<Rightarrow> iconMap" where
  "emptyIconMap pack =
     \<lparr>fileNames = Map.empty, folderNames = Map.empty, fileExtensions = Map.empty,
      languageIds = Map.empty, light_fileNames = Map.empty, light_folderNames = Map.empty,
      light_fileExtensions = Map.empty, activeIconPack = pack\<rparr>"

definition emptyLanguageMap :: languageMap where
  "emptyLanguageMap = \<lparr>lang_fileNames = Map.empty, lang_fileExtensions = Map.empty\<rparr>"

section \<open>The rate shaper\<close>

text \<open>
  \<^verbatim>\<open>rushFirst\<close>, lines 26 to 40, over a logical clock. The state is the counter
  \<^verbatim>\<open>executions\<close> and the reset timer held in \<^verbatim>\<open>timerID\<close>, kept as the time at which
  it fires while it is pending. A call returns what it does with the callback, in
  order: \<open>Run\<close> is the immediate call, \<open>SetTimeout d\<close> is \<^verbatim>\<open>setTimeout(callback, d)\<close>.
  \<^verbatim>\<open>clearTimeout\<close> followed by the new \<^verbatim>\<open>setTimeout\<close> replaces the pending timer,
  and a timer that has fired is no longer pending. The provider hook
  \<^verbatim>\<open>gitProvider.onAdd\<close> of line 114 belongs to the provider and is left out.
\<close>

datatype invocation = Run | SetTimeout nat

record shaper =
  executions :: nat
  timerID :: "nat option"

definition initial :: shaper where
  "initial = \<lparr>executions = 0, timerID = None\<rparr>"

definition rushFirst :: "nat \<Rightarrow> nat \<Rightarrow> shaper \<Rightarrow> invocation list \<times> shaper" where
  "rushFirst rushBatch now s =
     (if executions s \<le> rushBatch
        then ([Run, SetTimeout 20], s\<lparr>executions := executions s + 1\<rparr>)
      else ([SetTimeout 0], s\<lparr>timerID := Some (now + 1000)\<rparr>))"

text \<open>The event loop reaches time \<open>now\<close>: a reset timer that is due runs its body.\<close>

definition fireTimer :: "nat \<Rightarrow> shaper \<Rightarrow> shaper" where
  "fireTimer now s =
     (case timerID s of
        None \<Rightarrow> s
      | Some t \<Rightarrow> if t \<le> now then s\<lparr>executions := 0, timerID := None\<rparr> else s)"

text \<open>
  The observer's \<^verbatim>\<open>add(row)\<close>, line 112, for a row seen at time \<open>now\<close>, and a run of
  rows given by their arrival times; the result lists the invocations of each row.
\<close>

definition addRow :: "nat \<Rightarrow> shaper \<Rightarrow> invocation list \<times> shaper" where
  "addRow now s = rushFirst 90 now (fireTimer now s)"

fun addRows :: "nat list \<Rightarrow> shaper \<Rightarrow> invocation list list \<times> shaper" where
  "addRows [] s = ([], s)"
| "addRows (t # ts) s =
     (let (i, s') = addRow t s; (is, s'') = addRows ts s' in (i # is, s''))"

section \<open>The reads that can throw\<close>

text \<open>
  Reading a key from \<^verbatim>\<open>undefined\<close> throws a \<^verbatim>\<open>TypeError\<close>; no other expression of
  \<^verbatim>\<open>lookForMatch\<close> and \<^verbatim>\<open>lookForLightMatch\<close> can throw (a key that is
  \<^verbatim>\<open>undefined\<close> or an empty string is read like any other). The JSON modules as they
  are imported: a table is \<open>None\<close> when the module does not define it (for a light
  table, when \<^verbatim>\<open>iconMap.light\<close> or its member is missing).
\<close>

datatype error = TypeError

record iconMapJson =
  json_fileNames :: "table option"
  json_folderNames :: "table option"
  json_fileExtensions :: "table option"
  json_languageIds :: "table option"
  json_light_fileNames :: "table option"
  json_light_folderNames :: "table option"
  json_light_fileExtensions :: "table option"

record languageMapJson =
  json_lang_fileNames :: "table option"
  json_lang_fileExtensions :: "table option"

definition readProp :: "table option \<Rightarrow> string \<Rightarrow> error + jsval" where
  "readProp t k = (case t of None \<Rightarrow> Inl TypeError | Some tbl \<Rightarrow> Inr (getProp tbl k))"

definition bindE :: "error + 'a \<Rightarrow> ('a \<Rightarrow> error + 'b) \<Rightarrow> error + 'b" where
  "bindE r f = (case r of Inl e \<Rightarrow> Inl e | Inr v \<Rightarrow> f v)"

text \<open>
  \<^verbatim>\<open>lookForMatch\<close>, lines 207 to 238, statement by statement: each \<^verbatim>\<open>if\<close> reads
  its table before it looks at the flags, and the \<^verbatim>\<open>return\<close> reads the same
  property again, so it returns the value just tested.
\<close>

definition lookForMatch_run ::
  "iconMapJson \<Rightarrow> languageMapJson \<Rightarrow> string \<Rightarrow> string \<Rightarrow> string option
     \<Rightarrow> bool \<Rightarrow> bool \<Rightarrow> bool \<Rightarrow> error + jsval"
  where
  "lookForMatch_run jm jl fileName lowerFileName fileExtension isDir isSubmodule isSymlink =
     (if isSubmodule then Inr (Str ''folder-git'')
      else if isSymlink then Inr (Str ''folder-symlink'')
      else
        bindE (readProp (json_fileNames jm) fileName) (\<lambda>v.
          if truthy v \<and> \<not> isDir \<and> \<not> isSubmodule then Inr v else
        bindE (readProp (json_folderNames jm) fileName) (\<lambda>v.
          if truthy v \<and> isDir \<and> \<not> isSubmodule then Inr v else
        bindE (readProp (json_fileNames jm) lowerFileName) (\<lambda>v.
          if truthy v \<and> \<not> isDir \<and> \<not> isSubmodule then Inr v else
        bindE (readProp (json_folderNames jm) lowerFileName) (\<lambda>v.
          if truthy v \<and> isDir \<and> \<not> isSubmodule then Inr v else
        bindE (readProp (json_fileExtensions jm) (keyOf fileExtension)) (\<lambda>v.
          if truthy v \<and> \<not> isDir \<and> \<not> isSubmodule then Inr v else
        bindE (readProp (json_languageIds jm) (keyOf fileExtension)) (\<lambda>v.
          if truthy v \<and> \<not> isDir \<and> \<not> isSubmodule then Inr v else
        bindE (readProp (json_lang_fileNames jl) fileName) (\<lambda>v.
          if truthy v \<and> \<not> isDir \<and> \<not> isSubmodule then Inr v else
        bindE (readProp (json_lang_fileNames jl) lowerFileName) (\<lambda>v.
          if truthy v \<and> \<not> isDir \<and> \<not> isSubmodule then Inr v else
        bindE (readProp (json_lang_fileExtensions jl) (keyOf fileExtension)) (\<lambda>v.
          if truthy v \<and> \<not> isDir then Inr v else
        if isDir then Inr (Str ''folder'') else Inr (Str ''file'')))))))))))"

text \<open>\<^verbatim>\<open>lookForLightMatch\<close>, lines 250 to 260, in the same way.\<close>

definition lookForLightMatch_run ::
  "iconMapJson \<Rightarrow> jsval \<Rightarrow> string \<Rightarrow> string option \<Rightarrow> bool \<Rightarrow> error + jsval"
  where
  "lookForLightMatch_run jm iconName fileName fileExtension isDir =
     bindE (readProp (json_light_fileNames jm) fileName) (\<lambda>v.
       if truthy v \<and> \<not> isDir then Inr v else
     bindE (readProp (json_light_folderNames jm) fileName) (\<lambda>v.
       if truthy v \<and> isDir then Inr v else
     bindE (readProp (json_light_fileExtensions jm) (keyOf fileExtension)) (\<lambda>v.
       if truthy v \<and> \<not> isDir then Inr v else
     Inr iconName)))"

text \<open>Modules that define every table the engine reads.\<close>

definition loaded :: "iconMap \<Rightarrow> iconMapJson" where
  "loaded im =
     \<lparr>json_fileNames = Some (fileNames im), json_folderNames = Some (folderNames im),
      json_fileExtensions = Some (fileExtensions im), json_languageIds = Some (languageIds im),
      json_light_fileNames = Some (light_fileNames im),
      json_light_folderNames = Some (light_folderNames im),
      json_light_fileExtensions = Some (light_fileExtensions im)\<rparr>"


section \<open>Helper facts\<close>

lemma getProp_own: "t k = Some v \<Longrightarrow> getProp t k = Str v"
  by (simp add: getProp_def)

lemma getProp_empty: "getProp Map.empty k = (if k \<in> set objectPrototype then Inherited k else Undefined)"
  by (simp add: getProp_def)


lemma lookForMatch_truthy:
  "truthy (lookForMatch im lm fileName lowerFileName fileExtension isDir isSubmodule isSymlink)"
  by (simp add: lookForMatch_def)

lemma lookForLightMatch_miss:
  "\<not> lightHit im fileName fileExtension isDir \<Longrightarrow>
     lookForLightMatch im iconName fileName fileExtension isDir = iconName"
  by (auto simp add: lookForLightMatch_def lightHit_def)

lemma replaceIcon_iconName_light_miss:
  "\<not> lightHit im fileName fileExtension isDir \<Longrightarrow>
     replaceIcon_iconName im lm il fileName lowerFileName fileExtension
       isDir isSubmodule isSymlink True
     = replaceIcon_iconName im lm il fileName lowerFileName fileExtension
       isDir isSubmodule isSymlink False"
  by (simp add: replaceIcon_iconName_def Let_def lookForLightMatch_miss)

lemma lookForLightMatch_truthy:
  "truthy iconName \<Longrightarrow> truthy (lookForLightMatch im iconName fileName fileExtension isDir)"
  by (simp add: lookForLightMatch_def)

lemma nestMatch_nonempty: "nestMatch n \<noteq> Some []"
  by (simp add: nestMatch_def)

lemma lookForIconPackMatch_nonempty: "lookForIconPackMatch im il n \<noteq> Some []"
  by (simp add: lookForIconPackMatch_def nestMatch_nonempty split: option.splits)

lemma lookForIconPackMatch_inactive:
  "\<not> packActive im \<Longrightarrow> lookForIconPackMatch im il n = None"
  by (simp add: packActive_def lookForIconPackMatch_def split: option.splits)

lemma replaceIcon_iconName_stages:
  "replaceIcon_iconName im lm il fileName lowerFileName fileExtension isDir isSubmodule isSymlink isLightTheme =
     (case lookForIconPackMatch im il lowerFileName of
        Some p \<Rightarrow> Str p
      | None \<Rightarrow>
          if isLightTheme
            then lookForLightMatch im
                   (lookForMatch im lm fileName lowerFileName fileExtension isDir isSubmodule isSymlink)
                   fileName fileExtension isDir
          else lookForMatch im lm fileName lowerFileName fileExtension isDir isSubmodule isSymlink)"
  by (cases "packActive im")
    (simp_all add: replaceIcon_iconName_def lookForIconPackMatch_inactive split: option.splits)

text \<open>A directory is resolved from the folder table alone.\<close>

lemma lookForMatch_dir_tables:
  "folderNames im = folderNames im' \<Longrightarrow>
     lookForMatch im lm fileName lowerFileName fileExtension True isSubmodule isSymlink =
     lookForMatch im' lm' fileName lowerFileName fileExtension' True isSubmodule isSymlink"
  by (simp add: lookForMatch_def)

lemma lookForMatch_dir_default:
  "\<not> isSubmodule \<Longrightarrow> \<not> isSymlink \<Longrightarrow>
   \<not> truthy (getProp (folderNames im) fileName) \<Longrightarrow>
   \<not> truthy (getProp (folderNames im) lowerFileName) \<Longrightarrow>
     lookForMatch im lm fileName lowerFileName fileExtension True isSubmodule isSymlink = Str ''folder''"
  by (simp add: lookForMatch_def)

lemma lookForMatch_dir_inherited:
  "\<not> isSubmodule \<Longrightarrow> \<not> isSymlink \<Longrightarrow> fileName \<in> set objectPrototype \<Longrightarrow>
   folderNames im fileName = None \<Longrightarrow>
     lookForMatch im lm fileName lowerFileName fileExtension True isSubmodule isSymlink = Inherited fileName"
  by (simp add: lookForMatch_def getProp_def)

text \<open>The rate shaper: the two branches, a burst from a given counter, the reset.\<close>

lemma rushFirst_rushed:
  "executions s \<le> rushBatch \<Longrightarrow>
     rushFirst rushBatch now s = ([Run, SetTimeout 20], s\<lparr>executions := Suc (executions s)\<rparr>)"
  by (simp add: rushFirst_def)

lemma rushFirst_throttled:
  "rushBatch < executions s \<Longrightarrow>
     rushFirst rushBatch now s = ([SetTimeout 0], s\<lparr>timerID := Some (now + 1000)\<rparr>)"
  by (simp add: rushFirst_def)

lemma addRows_rushed:
  "timerID s = None \<Longrightarrow> executions s + length ts \<le> 91 \<Longrightarrow>
     addRows ts s =
       (replicate (length ts) [Run, SetTimeout 20], s\<lparr>executions := executions s + length ts\<rparr>)"
proof (induction ts arbitrary: s)
  case Nil
  then show ?case by simp
next
  case (Cons t ts)
  let ?s' = "s\<lparr>executions := Suc (executions s)\<rparr>"
  from Cons.prems have step: "addRow t s = ([Run, SetTimeout 20], ?s')"
    by (simp add: addRow_def fireTimer_def rushFirst_def)
  from Cons.prems have "timerID ?s' = None" and "executions ?s' + length ts \<le> 91"
    by simp_all
  then have "addRows ts ?s' =
      (replicate (length ts) [Run, SetTimeout 20], ?s'\<lparr>executions := executions ?s' + length ts\<rparr>)"
    by (rule Cons.IH)
  with step show ?case by simp
qed

lemma addRow_throttled:
  "90 < executions s \<Longrightarrow> timerID s = None \<or> (\<exists>d. timerID s = Some d \<and> now < d) \<Longrightarrow>
     addRow now s = ([SetTimeout 0], s\<lparr>timerID := Some (now + 1000)\<rparr>)"
  by (auto simp add: addRow_def fireTimer_def rushFirst_def)

lemma addRow_after_quiet:
  "timerID s = Some d \<Longrightarrow> d \<le> now \<Longrightarrow>
     addRow now s = ([Run, SetTimeout 20], s\<lparr>executions := 1, timerID := None\<rparr>)"
  by (simp add: addRow_def fireTimer_def rushFirst_def)

lemma fireTimer_never_armed:
  "timerID s = None \<Longrightarrow> fireTimer now s = s"
  by (simp add: fireTimer_def)



lemma lookForMatch_run_missing_table:
  "lookForMatch_run ((loaded im)\<lparr>json_fileNames := None\<rparr>) jl fileName lowerFileName
       fileExtension isDir False False
     = Inl TypeError"
  by (simp add: lookForMatch_run_def readProp_def bindE_def)

lemma lookForLightMatch_run_missing_table:
  "lookForLightMatch_run ((loaded im)\<lparr>json_light_fileNames := None\<rparr>) iconName fileName
       fileExtension isDir
     = Inl TypeError"
  by (simp add: lookForLightMatch_run_def readProp_def bindE_def)

text \<open>
  Every stage yields a truthy value, so the test \<^verbatim>\<open>if (!iconName) return\<close> of line
  186 never succeeds.
\<close>

lemma iconName_truthy:
  "truthy (lookForMatch im lm fileName lowerFileName fileExtension isDir isSubmodule isSymlink)
   \<and> (truthy iconName \<longrightarrow>
        truthy (lookForLightMatch im iconName fileName fileExtension isDir))
   \<and> (truthy iconName \<longrightarrow>
        truthy (case lookForIconPackMatch im il lowerFileName of
                  None \<Rightarrow> iconName
                | Some p \<Rightarrow> Str p))
   \<and> truthy (replaceIcon_iconName im lm il fileName lowerFileName fileExtension
               isDir isSubmodule isSymlink isLightTheme)"
proof -
  have pk: "truthy (case lookForIconPackMatch im il lowerFileName of
                      None \<Rightarrow> i
                    | Some p \<Rightarrow> Str p)" if "truthy i" for i
    using that lookForIconPackMatch_nonempty [of im il lowerFileName]
    by (cases "lookForIconPackMatch im il lowerFileName") auto
  have r: "truthy (replaceIcon_iconName im lm il fileName lowerFileName fileExtension
               isDir isSubmodule isSymlink isLightTheme)"
    using lookForIconPackMatch_nonempty [of im il lowerFileName]
    by (cases "lookForIconPackMatch im il lowerFileName")
      (auto simp add: replaceIcon_iconName_stages lookForMatch_truthy lookForLightMatch_truthy)
  show ?thesis
    using pk [of iconName] r by (simp add: lookForMatch_truthy lookForLightMatch_truthy)
qed

section \<open>The claims\<close>

text \<open>
  C1. For a row with \<open>isSubmodule\<close>, \<^verbatim>\<open>lookForMatch\<close> returns \<^verbatim>\<open>'folder-git'\<close>
  whatever the other flags, the names, the extension and the tables are. The icon
  name \<^verbatim>\<open>replaceIcon\<close> ends with is \<^verbatim>\<open>'folder-git'\<close> when the light stage does not
  run or finds nothing and the pack lookup returns \<^verbatim>\<open>null\<close>.
\<close>

theorem submodule_icon:
  assumes "isSubmodule"
  shows "lookForMatch im lm fileName lowerFileName fileExtension isDir isSubmodule isSymlink
           = Str ''folder-git''
         \<and> ((\<not> isLightTheme \<or> \<not> lightHit im fileName fileExtension isDir)
              \<and> lookForIconPackMatch im il lowerFileName = None
            \<longrightarrow> replaceIcon_iconName im lm il fileName lowerFileName fileExtension
                  isDir isSubmodule isSymlink isLightTheme = Str ''folder-git'')"
proof -
  have m: "lookForMatch im lm fileName lowerFileName fileExtension isDir isSubmodule isSymlink
             = Str ''folder-git''"
    using assms by (simp add: lookForMatch_def)
  show ?thesis
    using m by (auto simp add: replaceIcon_iconName_stages lookForLightMatch_miss)
qed

theorem submodule_icon_witness:
  "replaceIcon_iconName
     ((emptyIconMap (Some ''react_redux''))\<lparr>light_fileNames := [''readme.md'' \<mapsto> ''readme_light'']\<rparr>)
     emptyLanguageMap {''folder-react-components.svg''}
     ''vendor'' ''vendor'' None True True False True = Str ''folder-git''"
  using submodule_icon [of True
      "(emptyIconMap (Some ''react_redux''))\<lparr>light_fileNames := [''readme.md'' \<mapsto> ''readme_light'']\<rparr>"
      emptyLanguageMap "''vendor''" "''vendor''" None True False True
      "{''folder-react-components.svg''}"]
  by (simp add: lightHit_def getProp_def objectPrototype_def emptyIconMap_def
      lookForIconPackMatch_def keyOf_def)

text \<open>
  C1 as stated fails: with the pack \<^verbatim>\<open>react_redux\<close> of line 17 and the asset
  \<^verbatim>\<open>folder-react-components.svg\<close>, a submodule called \<^verbatim>\<open>components\<close> ends with the
  pack's icon.
\<close>

theorem submodule_pack_override:
  "replaceIcon_iconName (emptyIconMap (Some ''react_redux'')) emptyLanguageMap
     {''folder-react-components.svg''} ''components'' ''components'' None True True False False
     = Str ''folder-react-components''
   \<and> replaceIcon_iconName (emptyIconMap (Some ''react_redux'')) emptyLanguageMap
     {''folder-react-components.svg''} ''components'' ''components'' None True True False False
     \<noteq> Str ''folder-git''"
  by (simp add: replaceIcon_iconName_stages lookForIconPackMatch_def emptyIconMap_def)

text \<open>
  C2, at the 91st row of a burst. After 90 rows from the initial state the counter
  is 90, the test \<^verbatim>\<open>executions <= rushBatch\<close> still holds, and the 91st row gets the
  immediate call and the 20-unit timeout, not one zero-delay timeout. No reset timer
  has been set by then, so after any quiet period the counter is still 91 and the
  next row gets the single zero-delay timeout.
\<close>

theorem ninety_first_row_rushed:
  "fst (addRow 0 (snd (addRows (replicate 90 0) initial))) = [Run, SetTimeout 20]
   \<and> snd (addRows (replicate 91 0) initial) = \<lparr>executions = 91, timerID = None\<rparr>
   \<and> fst (addRow 5000 (snd (addRows (replicate 91 0) initial))) = [SetTimeout 0]"
proof -
  have a: "addRows (replicate 90 0) initial
             = (replicate 90 [Run, SetTimeout 20], \<lparr>executions = 90, timerID = None\<rparr>)"
    using addRows_rushed [of initial "replicate 90 0"] by (simp add: initial_def)
  have b: "addRows (replicate 91 0) initial
             = (replicate 91 [Run, SetTimeout 20], \<lparr>executions = 91, timerID = None\<rparr>)"
    using addRows_rushed [of initial "replicate 91 0"] by (simp add: initial_def)
  show ?thesis
    by (simp add: a b addRow_def fireTimer_def rushFirst_def)
qed

text \<open>
  C3. For a row that is no directory, no submodule and no symlink, and whose exact
  file name has an entry in the primary file-name table that is not the empty string,
  \<^verbatim>\<open>lookForMatch\<close> returns that entry, whatever the extension table, the
  language-id table and the fallback tables hold. The icon name \<^verbatim>\<open>replaceIcon\<close> ends
  with is that entry when the light stage does not run or finds nothing and the pack
  lookup returns \<^verbatim>\<open>null\<close>.
\<close>

theorem fileName_entry_wins:
  assumes "\<not> isDir" and "\<not> isSubmodule" and "\<not> isSymlink"
    and "fileNames im fileName = Some icon" and "icon \<noteq> []"
  shows "lookForMatch im lm fileName lowerFileName fileExtension isDir isSubmodule isSymlink
           = Str icon
         \<and> ((\<not> isLightTheme \<or> \<not> lightHit im fileName fileExtension isDir)
              \<and> lookForIconPackMatch im il lowerFileName = None
            \<longrightarrow> replaceIcon_iconName im lm il fileName lowerFileName fileExtension
                  isDir isSubmodule isSymlink isLightTheme = Str icon)"
proof -
  have m: "lookForMatch im lm fileName lowerFileName fileExtension isDir isSubmodule isSymlink
             = Str icon"
    using assms by (simp add: lookForMatch_def getProp_own)
  show ?thesis
    using m by (auto simp add: replaceIcon_iconName_stages lookForLightMatch_miss)
qed

theorem fileName_entry_wins_witness:
  "lookForMatch
     ((emptyIconMap (Some ''react_redux''))
        \<lparr>fileNames := [''package.json'' \<mapsto> ''nodejs''],
         fileExtensions := [''json'' \<mapsto> ''json'']\<rparr>)
     (emptyLanguageMap\<lparr>lang_fileExtensions := [''json'' \<mapsto> ''json'']\<rparr>)
     ''package.json'' ''package.json'' (Some ''json'') False False False = Str ''nodejs''
   \<and> replaceIcon_iconName
     ((emptyIconMap (Some ''react_redux''))
        \<lparr>fileNames := [''package.json'' \<mapsto> ''nodejs''],
         fileExtensions := [''json'' \<mapsto> ''json'']\<rparr>)
     (emptyLanguageMap\<lparr>lang_fileExtensions := [''json'' \<mapsto> ''json'']\<rparr>)
     {''folder-react-components.svg''}
     ''package.json'' ''package.json'' (Some ''json'') False False False True = Str ''nodejs''"
  using fileName_entry_wins [where isDir = False and isSubmodule = False and isSymlink = False
      and im = "(emptyIconMap (Some ''react_redux''))
        \<lparr>fileNames := [''package.json'' \<mapsto> ''nodejs''],
         fileExtensions := [''json'' \<mapsto> ''json'']\<rparr>"
      and fileName = "''package.json''" and icon = "''nodejs''"
      and lm = "emptyLanguageMap\<lparr>lang_fileExtensions := [''json'' \<mapsto> ''json'']\<rparr>"
      and lowerFileName = "''package.json''" and fileExtension = "Some ''json''"
      and isLightTheme = True and il = "{''folder-react-components.svg''}"]
  by (simp add: emptyIconMap_def lightHit_def getProp_def objectPrototype_def keyOf_def
      lookForIconPackMatch_def)

text \<open>
  C3 as stated fails on the icon name \<^verbatim>\<open>replaceIcon\<close> ends with. For the file
  \<^verbatim>\<open>package.json\<close> with the file-name entry \<^verbatim>\<open>nodejs\<close>, the light theme replaces
  the entry by a light file-name entry, and by a light entry of the extension
  \<^verbatim>\<open>json\<close>; for a file \<^verbatim>\<open>components\<close> with a file-name entry, the pack
  \<^verbatim>\<open>react_redux\<close> replaces it. An entry that is the empty string fails the test of
  line 212, and \<^verbatim>\<open>lookForMatch\<close> goes on to the extension table.
\<close>

theorem fileName_entry_overridden:
  "replaceIcon_iconName
     ((emptyIconMap (Some ''react_redux''))
        \<lparr>fileNames := [''package.json'' \<mapsto> ''nodejs''],
         light_fileNames := [''package.json'' \<mapsto> ''nodejs_light'']\<rparr>)
     emptyLanguageMap {}
     ''package.json'' ''package.json'' (Some ''json'') False False False True
     = Str ''nodejs_light''
   \<and> replaceIcon_iconName
     ((emptyIconMap (Some ''react_redux''))
        \<lparr>fileNames := [''package.json'' \<mapsto> ''nodejs''],
         light_fileExtensions := [''json'' \<mapsto> ''json_light'']\<rparr>)
     emptyLanguageMap {}
     ''package.json'' ''package.json'' (Some ''json'') False False False True
     = Str ''json_light''
   \<and> replaceIcon_iconName
     ((emptyIconMap (Some ''react_redux''))\<lparr>fileNames := [''components'' \<mapsto> ''component'']\<rparr>)
     emptyLanguageMap {''folder-react-components.svg''}
     ''components'' ''components'' None False False False False
     = Str ''folder-react-components''
   \<and> lookForMatch
     ((emptyIconMap (Some ''react_redux''))
        \<lparr>fileNames := [''package.json'' \<mapsto> []],
         fileExtensions := [''json'' \<mapsto> ''json'']\<rparr>)
     emptyLanguageMap
     ''package.json'' ''package.json'' (Some ''json'') False False False
     = Str ''json''"
  by (simp add: replaceIcon_iconName_stages lookForIconPackMatch_def lookForLightMatch_def
      lookForMatch_def getProp_def objectPrototype_def emptyIconMap_def emptyLanguageMap_def
      keyOf_def)

text \<open>
  C4, at a directory called \<^verbatim>\<open>constructor\<close>. No table has any entry, so neither the
  name nor its lowercase form is a key of the folder-name table; the lookup
  \<^verbatim>\<open>iconMap.folderNames[fileName]\<close> finds the member inherited from
  \<^verbatim>\<open>Object.prototype\<close>, which is truthy, and \<^verbatim>\<open>lookForMatch\<close> returns it instead of
  \<^verbatim>\<open>'folder'\<close>.
\<close>

theorem directory_constructor:
  "lookForMatch (emptyIconMap (Some ''react_redux'')) emptyLanguageMap
     ''constructor'' ''constructor'' None True False False = Inherited ''constructor''
   \<and> lookForMatch (emptyIconMap (Some ''react_redux'')) emptyLanguageMap
     ''constructor'' ''constructor'' None True False False \<noteq> Str ''folder''"
  by (simp add: lookForMatch_def getProp_def objectPrototype_def emptyIconMap_def)

text \<open>
  C5. The extension parser on the five names of the claim.
\<close>

theorem fileExtensionOf_examples:
  "fileExtensionOf ''a.xml.dist'' = Some ''xml.dist''
   \<and> fileExtensionOf ''a.xml.dist.sample'' = Some ''xml.dist.sample''
   \<and> fileExtensionOf ''a.yml.dist'' = Some ''yml.dist''
   \<and> fileExtensionOf ''a.tar.gz'' = Some ''gz''
   \<and> fileExtensionOf ''Makefile'' = None"
  by (simp add: fileExtensionOf_def extGroup_def xml_dist_def xml_dist_sample_def yml_dist_def
      isLineTerminator_def isWordChar_def wordChars_def)

text \<open>
  C6, at a symlink called \<^verbatim>\<open>constructor\<close> with light tables that have no entry at
  all. With the light theme the lookup \<^verbatim>\<open>iconMap.light.fileNames[fileName]\<close> finds the
  member inherited from \<^verbatim>\<open>Object.prototype\<close> and the row ends with it; without the
  light theme the same row ends with \<^verbatim>\<open>'folder-symlink'\<close>.
\<close>

theorem light_symlink_constructor:
  "replaceIcon_iconName (emptyIconMap (Some ''react_redux'')) emptyLanguageMap {}
     ''constructor'' ''constructor'' None False False True True = Inherited ''constructor''
   \<and> replaceIcon_iconName (emptyIconMap (Some ''react_redux'')) emptyLanguageMap {}
     ''constructor'' ''constructor'' None False False True False = Str ''folder-symlink''"
  by (simp add: replaceIcon_iconName_stages lookForIconPackMatch_def lookForLightMatch_def
      lookForMatch_def getProp_def objectPrototype_def emptyIconMap_def)

text \<open>
  C7. With the pack \<^verbatim>\<open>nest\<close>, every name ending in \<^verbatim>\<open>.service.ts\<close> gets
  \<^verbatim>\<open>nest-service\<close> from the pack lookup; every name ending in \<^verbatim>\<open>.unknown.ts\<close> gets
  \<^verbatim>\<open>null\<close>, and \<^verbatim>\<open>replaceIcon\<close> keeps the icon name computed before the pack stage.
\<close>

theorem nest_pack_suffixes:
  assumes "activeIconPack im = Some ''nest''"
  shows "lookForIconPackMatch im il (p @ ''.service.ts'') = Some ''nest-service''
         \<and> lookForIconPackMatch im il (q @ ''.unknown.ts'') = None
         \<and> replaceIcon_iconName im lm il fileName (q @ ''.unknown.ts'') fileExtension
              isDir isSubmodule isSymlink isLightTheme
            = (if isLightTheme
                 then lookForLightMatch im
                        (lookForMatch im lm fileName (q @ ''.unknown.ts'') fileExtension
                           isDir isSubmodule isSymlink)
                        fileName fileExtension isDir
               else lookForMatch im lm fileName (q @ ''.unknown.ts'') fileExtension
                      isDir isSubmodule isSymlink)"
proof -
  have s: "lookForIconPackMatch im il (p @ ''.service.ts'') = Some ''nest-service''"
    using assms
    by (simp add: lookForIconPackMatch_def nestMatch_def nestTest_def endsWith_def suffix_to_prefix)
  have u: "lookForIconPackMatch im il (q @ ''.unknown.ts'') = None"
    using assms
    by (simp add: lookForIconPackMatch_def nestMatch_def nestTest_def endsWith_def suffix_to_prefix)
  show ?thesis
    by (simp add: s u replaceIcon_iconName_stages)
qed

theorem nest_pack_suffixes_witness:
  "lookForIconPackMatch (emptyIconMap (Some ''nest'')) {} ''users.service.ts'' = Some ''nest-service''
   \<and> lookForIconPackMatch (emptyIconMap (Some ''nest'')) {} ''users.unknown.ts'' = None
   \<and> replaceIcon_iconName (emptyIconMap (Some ''nest'')) emptyLanguageMap {}
        ''users.unknown.ts'' ''users.unknown.ts'' (Some ''ts'') False False False False
      = Str ''file''"
  using nest_pack_suffixes [of "emptyIconMap (Some ''nest'')" "{}" "''users''" "''users''"
      emptyLanguageMap "''users.unknown.ts''" "Some ''ts''" False False False False]
  by (simp add: emptyIconMap_def emptyLanguageMap_def lookForMatch_def getProp_def
      objectPrototype_def keyOf_def)




text \<open>
  C9, at a directory called \<^verbatim>\<open>constructor\<close> and at a file called \<^verbatim>\<open>toString\<close>, with
  tables that have no entry. The icon name \<^verbatim>\<open>replaceIcon\<close> ends with for the
  directory, and the result of \<^verbatim>\<open>lookForMatch\<close> for the file, is the member
  inherited from \<^verbatim>\<open>Object.prototype\<close>: a function, not an icon identifier.
\<close>

theorem iconName_not_identifier:
  "replaceIcon_iconName (emptyIconMap (Some ''react_redux'')) emptyLanguageMap {}
     ''constructor'' ''constructor'' None True False False False = Inherited ''constructor''
   \<and> lookForMatch (emptyIconMap (Some ''react_redux'')) emptyLanguageMap
     ''toString'' ''tostring'' None False False False = Inherited ''toString''"
  by (simp add: replaceIcon_iconName_stages lookForIconPackMatch_def lookForMatch_def
      getProp_def objectPrototype_def emptyIconMap_def)

text \<open>
  C10. With the pack \<^verbatim>\<open>angular\<close> or \<^verbatim>\<open>angular_ngrx\<close> the pack lookup returns a name
  exactly when the icon list has the asset \<^verbatim>\<open>folder-react-<name>.svg\<close>, and the name
  it returns is \<^verbatim>\<open>folder-ngrx-<name>\<close>.
\<close>

theorem angular_pack_prefixes:
  assumes "activeIconPack im = Some ''angular'' \<or> activeIconPack im = Some ''angular_ngrx''"
  shows "lookForIconPackMatch im il lowerFileName
           = (if ''folder-react-'' @ lowerFileName @ ''.svg'' \<in> il
                then Some (''folder-ngrx-'' @ lowerFileName)
              else None)"
  using assms by (auto simp add: lookForIconPackMatch_def)

theorem angular_pack_prefixes_witness:
  "lookForIconPackMatch (emptyIconMap (Some ''angular'')) {''folder-react-components.svg''}
     ''components'' = Some ''folder-ngrx-components''
   \<and> lookForIconPackMatch (emptyIconMap (Some ''angular_ngrx'')) {''folder-ngrx-store.svg''}
     ''store'' = None"
  using angular_pack_prefixes [of "emptyIconMap (Some ''angular'')"
      "{''folder-react-components.svg''}" "''components''"]
    angular_pack_prefixes [of "emptyIconMap (Some ''angular_ngrx'')"
      "{''folder-ngrx-store.svg''}" "''store''"]
  by (simp add: emptyIconMap_def)

end
